theory Spec2Isabelle
  imports Main "HOL-Library.Word"
begin

unbundle bit_operations_syntax

section \<open>Configuration constants (both endpoints)\<close>

definition OFFER_TOPIC :: string where
  "OFFER_TOPIC = ''walkie-talkie/offer''"

definition ANSWER_TOPIC :: string where
  "ANSWER_TOPIC = ''walkie-talkie/answer''"

definition ICE_TOPIC :: string where
  "ICE_TOPIC = ''walkie-talkie/ice''"

definition SAMPLE_RATE :: nat where
  "SAMPLE_RATE = 48000"

definition CHANNELS :: nat where
  "CHANNELS = 1"

definition CHUNK :: nat where
  "CHUNK = 960"

type_synonym byte = "8 word"

text \<open>
  The Python exceptions that the modelled code paths can raise. All of them are subclasses
  of \<open>Exception\<close>, so an \<open>except Exception\<close> clause catches each of them.
\<close>

datatype error =
    UnicodeDecodeError
  | ValueError
  | IndexError
  | AttributeError
  | OSError
  | InvalidStateError
  | MediaStreamError

section \<open>Audio frames and sample buffers\<close>

text \<open>
  An \<open>av.AudioFrame\<close>: sample format, channel layout, number of samples per channel,
  the byte buffer of every plane, presentation timestamp and time base.
\<close>

record audio_frame =
  format :: string
  layout :: string
  samples :: nat
  planes :: "byte list list"
  pts :: "nat option"
  time_base :: "(nat \<times> nat) option"

text \<open>
  \<open>AudioFrame(format='s16', layout='mono', samples=n)\<close>: a packed 16-bit mono frame has
  one plane of \<open>2 * n\<close> bytes. The new buffer is not initialised: its content is whatever
  the allocator hands out, given here as \<open>mem\<close> (the byte \<open>mem i\<close> at offset \<open>i\<close>).
\<close>

definition AudioFrame :: "(nat \<Rightarrow> byte) \<Rightarrow> string \<Rightarrow> string \<Rightarrow> nat \<Rightarrow> audio_frame" where
  "AudioFrame mem fmt lay n =
     \<lparr>format = fmt, layout = lay, samples = n,
      planes = [map mem [0..<n * 2]], pts = None, time_base = None\<rparr>"

text \<open>\<open>plane.update(src)\<close> replaces the buffer and raises when the sizes differ.\<close>

definition plane_update :: "byte list \<Rightarrow> byte list \<Rightarrow> error + byte list" where
  "plane_update src plane = (if length src = length plane then Inr src else Inl ValueError)"

text \<open>\<open>for plane in frame.planes: plane.update(src)\<close>\<close>

fun update_planes :: "byte list \<Rightarrow> byte list list \<Rightarrow> error + byte list list" where
  "update_planes src [] = Inr []"
| "update_planes src (pl # pls) =
     (case plane_update src pl of
        Inl e \<Rightarrow> Inl e
      | Inr pl' \<Rightarrow>
          (case update_planes src pls of
             Inl e \<Rightarrow> Inl e
           | Inr pls' \<Rightarrow> Inr (pl' # pls')))"

text \<open>\<open>bytes(n)\<close>: \<open>n\<close> zero bytes.\<close>

definition bytes :: "nat \<Rightarrow> byte list" where
  "bytes n = replicate n 0"

text \<open>
  \<open>np.frombuffer(data, dtype=np.int16)\<close> and \<open>array.tobytes()\<close>, in the byte order of a
  little-endian host; \<open>frombuffer\<close> raises when the buffer is not a whole number of
  16-bit items.
\<close>

definition le16 :: "byte \<Rightarrow> byte \<Rightarrow> 16 word" where
  "le16 lo hi = ucast lo OR push_bit 8 (ucast hi)"

definition lo_byte :: "16 word \<Rightarrow> byte" where
  "lo_byte w = ucast w"

definition hi_byte :: "16 word \<Rightarrow> byte" where
  "hi_byte w = ucast (drop_bit 8 w)"

fun frombuffer_int16 :: "byte list \<Rightarrow> error + 16 word list" where
  "frombuffer_int16 [] = Inr []"
| "frombuffer_int16 [b] = Inl ValueError"
| "frombuffer_int16 (lo # hi # bs) =
     (case frombuffer_int16 bs of
        Inl e \<Rightarrow> Inl e
      | Inr ws \<Rightarrow> Inr (le16 lo hi # ws))"

fun tobytes :: "16 word list \<Rightarrow> byte list" where
  "tobytes [] = []"
| "tobytes (w # ws) = lo_byte w # hi_byte w # tobytes ws"

section \<open>The capture device (PyAudio input stream)\<close>

text \<open>
  The sound card is an external collaborator. A stream handle is modelled by what the
  code can observe: \<open>calls\<close> logs every call that reaches the driver for the handle,
  \<open>running\<close> is the stream object's own flag (set when the stream is opened started,
  cleared by \<open>stop_stream\<close> and \<open>close\<close>), and \<open>closed\<close> tells whether the driver has
  closed the handle. For an input stream, \<open>feed i\<close> is the block the hardware delivers
  to the \<open>i\<close>-th read together with the driver's overflow flag for it, and \<open>nread\<close>
  counts the reads done.
\<close>

datatype pa_call = PaRead nat | PaWrite "byte list" | PaStopStream | PaClose

record pa_stream =
  calls :: "pa_call list"
  running :: bool
  closed :: bool

record capture_stream = pa_stream +
  feed :: "nat \<Rightarrow> byte list \<times> bool"
  nread :: nat

text \<open>
  \<open>stream.read(num_frames, exception_on_overflow)\<close>: a closed stream raises; a read from
  a stopped stream fails, and on such a failure the driver closes the handle before it
  raises; an overflow raises only when \<open>exception_on_overflow\<close> is set, otherwise the
  data is returned.
\<close>

definition stream_read ::
  "nat \<Rightarrow> bool \<Rightarrow> capture_stream \<Rightarrow> (error + byte list) \<times> capture_stream" where
  "stream_read num_frames exception_on_overflow st =
     (let st' = st\<lparr>calls := calls st @ [PaRead num_frames]\<rparr> in
      if closed st then (Inl OSError, st')
      else if running st then
        (let (data, overflowed) = feed st (nread st);
             st'' = st'\<lparr>nread := nread st + 1\<rparr>
         in if overflowed \<and> exception_on_overflow then (Inl OSError, st'')
            else (Inr data, st''))
      else (Inl OSError, st'\<lparr>closed := True\<rparr>))"

text \<open>
  \<open>stream.stop_stream()\<close>: returns at once when the stream is not running; otherwise
  the driver is called, which raises on a handle that is no longer open.
\<close>

definition stop_stream :: "'a pa_stream_scheme \<Rightarrow> (error + unit) \<times> 'a pa_stream_scheme" where
  "stop_stream st =
     (if running st then
        (let st' = st\<lparr>calls := calls st @ [PaStopStream]\<rparr> in
         if closed st then (Inl OSError, st') else (Inr (), st'\<lparr>running := False\<rparr>))
      else (Inr (), st))"

text \<open>
  \<open>stream.close()\<close>: the driver's close is called whatever the state of the handle and
  does not raise.
\<close>

definition close :: "'a pa_stream_scheme \<Rightarrow> 'a pa_stream_scheme" where
  "close st = st\<lparr>calls := calls st @ [PaClose], running := False, closed := True\<rparr>"

text \<open>The \<open>pyaudio.PyAudio\<close> instance: only the number of \<open>terminate()\<close> calls matters.\<close>

record pyaudio =
  terminate_calls :: nat

definition terminate :: "pyaudio \<Rightarrow> pyaudio" where
  "terminate pa = pa\<lparr>terminate_calls := terminate_calls pa + 1\<rparr>"

section \<open>The Caller's audio source: \<open>AudioInputTrack\<close>\<close>

record audio_input_track =
  p :: pyaudio
  stream :: "capture_stream option"
  is_active :: bool

text \<open>\<open>AudioInputTrack.__init__\<close> on a device that opens: the gate starts closed.\<close>

definition AudioInputTrack :: "(nat \<Rightarrow> byte list \<times> bool) \<Rightarrow> audio_input_track" where
  "AudioInputTrack dev =
     \<lparr>p = \<lparr>terminate_calls = 0\<rparr>,
      stream = Some \<lparr>calls = [], running = True, closed = False, feed = dev, nread = 0\<rparr>,
      is_active = False\<rparr>"

text \<open>
  \<open>self.next_timestamp()\<close>, the first statement of \<open>recv\<close>. The class defines
  \<open>__init__\<close>, \<open>recv\<close>, \<open>set_ptt\<close> and \<open>stop\<close> only, and its base class
  \<open>MediaStreamTrack\<close> has no method of that name (the transport library defines
  \<open>next_timestamp\<close> on its video track class only): the attribute lookup raises.
\<close>

definition next_timestamp ::
  "audio_input_track \<Rightarrow> error + (nat \<times> nat \<times> nat) \<times> audio_input_track" where
  "next_timestamp t = Inl AttributeError"

text \<open>
  The \<open>with self.lock:\<close> block of \<open>recv\<close> (lines 39 to 60), for a timestamp \<open>pts'\<close>
  and a time base \<open>tb\<close>. The lock only makes the read of \<open>is_active\<close> and the block
  atomic with respect to \<open>set_ptt\<close>; in this sequential model it has no further effect.
\<close>

definition recv_locked ::
  "(nat \<Rightarrow> byte) \<Rightarrow> nat \<Rightarrow> nat \<times> nat \<Rightarrow> audio_input_track \<Rightarrow>
   (error + audio_frame) \<times> audio_input_track" where
  "recv_locked mem pts' tb t =
     (if \<not> is_active t then
        (let frame = AudioFrame mem ''s16'' ''mono'' CHUNK in
         case update_planes (bytes (CHUNK * 2)) (planes frame) of
           Inl e \<Rightarrow> (Inl e, t)
         | Inr pls \<Rightarrow>
             (Inr (frame\<lparr>planes := pls, pts := Some pts', time_base := Some tb\<rparr>), t))
      else
        (case stream t of
           None \<Rightarrow> (Inl AttributeError, t)
         | Some st \<Rightarrow>
             (case stream_read CHUNK False st of
                (Inl e, st') \<Rightarrow> (Inl e, t\<lparr>stream := Some st'\<rparr>)
              | (Inr data, st') \<Rightarrow>
                  (let t' = t\<lparr>stream := Some st'\<rparr> in
                   case frombuffer_int16 data of
                     Inl e \<Rightarrow> (Inl e, t')
                   | Inr array \<Rightarrow>
                       (let frame = AudioFrame mem ''s16'' ''mono'' CHUNK in
                        case update_planes (tobytes array) (planes frame) of
                          Inl e \<Rightarrow> (Inl e, t')
                        | Inr pls \<Rightarrow>
                            (Inr (frame\<lparr>planes := pls, pts := Some pts',
                                        time_base := Some tb\<rparr>), t'))))))"

text \<open>
  \<open>AudioInputTrack.recv\<close>: \<open>pts, time_base = await self.next_timestamp()\<close>, then the
  locked block. An exception of the first statement ends the pull before the gate is
  looked at.
\<close>

definition recv ::
  "(nat \<Rightarrow> byte) \<Rightarrow> audio_input_track \<Rightarrow> (error + audio_frame) \<times> audio_input_track" where
  "recv mem t0 =
     (case next_timestamp t0 of
        Inl e \<Rightarrow> (Inl e, t0)
      | Inr ((pts', tb), t) \<Rightarrow> recv_locked mem pts' tb t)"

text \<open>\<open>AudioInputTrack.set_ptt\<close>\<close>

definition set_ptt :: "bool \<Rightarrow> audio_input_track \<Rightarrow> audio_input_track" where
  "set_ptt active t = t\<lparr>is_active := active\<rparr>"

text \<open>
  \<open>AudioInputTrack.stop\<close>. \<open>if self.stream:\<close> is the test that the attribute holds a
  stream object; nothing in the class ever resets the attribute.
\<close>

definition stop :: "audio_input_track \<Rightarrow> (error + unit) \<times> audio_input_track" where
  "stop t =
     (case stream t of
        None \<Rightarrow> (Inr (), t\<lparr>p := terminate (p t)\<rparr>)
      | Some st \<Rightarrow>
          (case stop_stream st of
             (Inl e, st') \<Rightarrow> (Inl e, t\<lparr>stream := Some st'\<rparr>)
           | (Inr u, st') \<Rightarrow>
               (Inr (), t\<lparr>stream := Some (close st'), p := terminate (p t)\<rparr>)))"

section \<open>The playback sink: \<open>play_audio\<close>\<close>

text \<open>
  An output stream: \<open>wfail i\<close> tells whether the device rejects the \<open>i\<close>-th write,
  \<open>nwritten\<close> counts the writes accepted.
\<close>

record playback_stream = pa_stream +
  wfail :: "nat \<Rightarrow> bool"
  nwritten :: nat

text \<open>\<open>p.open(format=paInt16, channels=CHANNELS, rate=SAMPLE_RATE, output=True)\<close>\<close>

definition open_output :: "(nat \<Rightarrow> bool) \<Rightarrow> playback_stream" where
  "open_output dev =
     \<lparr>calls = [], running = True, closed = False, wfail = dev, nwritten = 0\<rparr>"

text \<open>
  \<open>stream.write(data)\<close>: a closed stream raises; when the device rejects the write, the
  driver closes the handle before it raises.
\<close>

definition stream_write ::
  "byte list \<Rightarrow> playback_stream \<Rightarrow> (error + unit) \<times> playback_stream" where
  "stream_write data st =
     (let st' = st\<lparr>calls := calls st @ [PaWrite data]\<rparr> in
      if closed st then (Inl OSError, st')
      else if wfail st (nwritten st) then (Inl OSError, st'\<lparr>closed := True\<rparr>)
      else (Inr (), st'\<lparr>nwritten := nwritten st + 1\<rparr>))"

text \<open>
  A remote track as the transport engine hands it over: its kind, and \<open>pulls i\<close>, the
  outcome of the \<open>i\<close>-th \<open>await track.recv()\<close> (a decoded frame, or the exception raised
  when the stream has ended or the transport failed).
\<close>

record media_track =
  kind :: string
  pulls :: "nat \<Rightarrow> error + audio_frame"

text \<open>
  The \<open>while True\<close> loop of \<open>play_audio\<close>: every exception of the pull, of
  \<open>frame.planes[0]\<close> or of the write leaves the loop. The loop need not end, so the
  result is optional.
\<close>

partial_function (option) play_loop ::
  "media_track \<Rightarrow> nat \<Rightarrow> playback_stream \<Rightarrow> playback_stream option" where
  "play_loop track i st =
     (case pulls track i of
        Inl e \<Rightarrow> Some st
      | Inr frame \<Rightarrow>
          (case planes frame of
             [] \<Rightarrow> Some st
           | pl # rest \<Rightarrow>
               (case stream_write pl st of
                  (Inl e, st') \<Rightarrow> Some st'
                | (Inr u, st') \<Rightarrow> play_loop track (i + 1) st')))"

text \<open>
  \<open>WebRTCClient.play_audio\<close> and \<open>WebRTCServer.play_audio\<close> (the two methods are the same
  code). The result is the outcome, the PyAudio instance and the output stream when the
  coroutine finishes.
\<close>

definition play_audio ::
  "(nat \<Rightarrow> bool) \<Rightarrow> media_track \<Rightarrow> ((error + unit) \<times> pyaudio \<times> playback_stream) option" where
  "play_audio dev track =
     (let p0 = \<lparr>terminate_calls = 0\<rparr>;
          stream0 = open_output dev
      in case play_loop track 0 stream0 of
           None \<Rightarrow> None
         | Some st \<Rightarrow>
             (case stop_stream st of
                (Inl e, st') \<Rightarrow> Some (Inl e, p0, st')
              | (Inr u, st') \<Rightarrow> Some (Inr (), terminate p0, close st')))"

section \<open>Signaling messages\<close>

text \<open>Python \<open>str\<close>: a sequence of Unicode code points.\<close>

type_synonym str = "nat list"

definition ascii :: "string \<Rightarrow> str" where
  "ascii cs = map of_char cs"

record mqtt_message =
  topic :: string
  payload :: "byte list"

text \<open>
  \<open>bytes.decode()\<close>: strict UTF-8. Continuation bytes are \<open>0x80..0xBF\<close>; overlong forms,
  surrogates and code points above \<open>0x10FFFF\<close> are rejected.
\<close>

definition is_cont :: "byte \<Rightarrow> bool" where
  "is_cont b = (0x80 \<le> b \<and> b \<le> 0xBF)"

definition cont_bits :: "byte \<Rightarrow> nat" where
  "cont_bits b = unat b - 0x80"

definition prepend :: "nat \<Rightarrow> error + str \<Rightarrow> error + str" where
  "prepend c r = (case r of Inl e \<Rightarrow> Inl e | Inr cs \<Rightarrow> Inr (c # cs))"

fun decode :: "byte list \<Rightarrow> error + str" where
  "decode [] = Inr []"
| "decode (b0 # bs) =
     (if b0 < 0x80 then prepend (unat b0) (decode bs)
      else if 0xC2 \<le> b0 \<and> b0 \<le> 0xDF then
        (case bs of
           b1 # r \<Rightarrow>
             if is_cont b1
             then prepend ((unat b0 - 0xC0) * 64 + cont_bits b1) (decode r)
             else Inl UnicodeDecodeError
         | _ \<Rightarrow> Inl UnicodeDecodeError)
      else if 0xE0 \<le> b0 \<and> b0 \<le> 0xEF then
        (case bs of
           b1 # b2 # r \<Rightarrow>
             if is_cont b1 \<and> is_cont b2
                \<and> (if b0 = 0xE0 then 0xA0 \<le> b1 else True)
                \<and> (if b0 = 0xED then b1 \<le> 0x9F else True)
             then prepend (((unat b0 - 0xE0) * 64 + cont_bits b1) * 64 + cont_bits b2)
                    (decode r)
             else Inl UnicodeDecodeError
         | _ \<Rightarrow> Inl UnicodeDecodeError)
      else if 0xF0 \<le> b0 \<and> b0 \<le> 0xF4 then
        (case bs of
           b1 # b2 # b3 # r \<Rightarrow>
             if is_cont b1 \<and> is_cont b2 \<and> is_cont b3
                \<and> (if b0 = 0xF0 then 0x90 \<le> b1 else True)
                \<and> (if b0 = 0xF4 then b1 \<le> 0x8F else True)
             then prepend
                    ((((unat b0 - 0xF0) * 64 + cont_bits b1) * 64 + cont_bits b2) * 64
                       + cont_bits b3)
                    (decode r)
             else Inl UnicodeDecodeError
         | _ \<Rightarrow> Inl UnicodeDecodeError)
      else Inl UnicodeDecodeError)"

section \<open>The transport engine (\<open>RTCPeerConnection\<close>)\<close>

text \<open>\<open>RTCSessionDescription(sdp=..., type=...)\<close>\<close>

record session_description =
  sdp :: str
  type :: string

text \<open>
  The engine is an external collaborator: the handlers are defined over any engine, given
  by the operations they call on a connection of type \<open>'pc\<close>. An operation either raises
  or yields the connection it leaves behind.
\<close>

record 'pc engine =
  createOffer :: "'pc \<Rightarrow> error + session_description \<times> 'pc"
  createAnswer :: "'pc \<Rightarrow> error + session_description \<times> 'pc"
  setLocalDescription :: "session_description \<Rightarrow> 'pc \<Rightarrow> error + 'pc"
  setRemoteDescription :: "session_description \<Rightarrow> 'pc \<Rightarrow> error + 'pc"
  localDescription :: "'pc \<Rightarrow> session_description option"

text \<open>The engine calls an endpoint issues, logged in the order of issue.\<close>

datatype pc_call =
    CreateOffer
  | CreateAnswer
  | SetLocalDescription session_description
  | SetRemoteDescription session_description

section \<open>The endpoints: \<open>WebRTCClient\<close> (Caller) and \<open>WebRTCServer\<close> (Responder)\<close>

text \<open>Callbacks handed to the event loop with \<open>call_soon_threadsafe\<close>.\<close>

datatype loop_callback =
    CreateOfferTask
  | HandleAnswerTask str
  | HandleOfferTask str

text \<open>
  What both classes hold: the connection \<open>pc\<close> with the log \<open>pc_calls\<close> of the engine
  calls issued on it; the MQTT client, as its \<open>subscriptions\<close> (topic and QoS) and the
  messages handed to \<open>publish\<close>; the event loop, as the callbacks scheduled on it
  (\<open>loop_calls\<close>) and the \<open>play_audio\<close> tasks created on it (\<open>created_tasks\<close>, each
  given by the track it is bound to); and the attribute \<open>player_task\<close>.
\<close>

record 'pc endpoint =
  pc :: 'pc
  pc_calls :: "pc_call list"
  subscriptions :: "(string \<times> nat) list"
  published :: "(string \<times> str) list"
  loop_calls :: "loop_callback list"
  created_tasks :: "media_track list"
  player_task :: "media_track option"

type_synonym 'pc WebRTCServer = "'pc endpoint"

record 'pc WebRTCClient = "'pc endpoint" +
  audio_track :: audio_input_track

text \<open>\<open>__init__\<close> of the two classes, on a fresh connection.\<close>

definition WebRTCServer :: "'pc \<Rightarrow> 'pc WebRTCServer" where
  "WebRTCServer pc0 =
     \<lparr>pc = pc0, pc_calls = [], subscriptions = [], published = [], loop_calls = [],
      created_tasks = [], player_task = None\<rparr>"

definition WebRTCClient :: "'pc \<Rightarrow> (nat \<Rightarrow> byte list \<times> bool) \<Rightarrow> 'pc WebRTCClient" where
  "WebRTCClient pc0 dev =
     \<lparr>pc = pc0, pc_calls = [], subscriptions = [], published = [], loop_calls = [],
      created_tasks = [], player_task = None, audio_track = AudioInputTrack dev\<rparr>"

text \<open>
  The \<open>on_track\<close> handler registered in both constructors:
  \<open>if track.kind == "audio": self.player_task = asyncio.create_task(self.play_audio(track))\<close>
\<close>

definition on_track ::
  "media_track \<Rightarrow> ('pc, 'a) endpoint_scheme \<Rightarrow> ('pc, 'a) endpoint_scheme" where
  "on_track track s =
     (if kind track = ''audio''
      then s\<lparr>created_tasks := created_tasks s @ [track], player_task := Some track\<rparr>
      else s)"

subsection \<open>Responder (\<open>s_end.py\<close>)\<close>

text \<open>\<open>WebRTCServer.on_connect\<close>: \<open>client.subscribe([(OFFER_TOPIC, 0), (ICE_TOPIC, 0)])\<close>\<close>

definition server_on_connect :: "'pc WebRTCServer \<Rightarrow> 'pc WebRTCServer" where
  "server_on_connect s =
     s\<lparr>subscriptions := subscriptions s @ [(OFFER_TOPIC, 0), (ICE_TOPIC, 0)]\<rparr>"

text \<open>\<open>WebRTCServer.on_message\<close>\<close>

definition server_on_message ::
  "mqtt_message \<Rightarrow> 'pc WebRTCServer \<Rightarrow> (error + unit) \<times> 'pc WebRTCServer" where
  "server_on_message msg s =
     (case decode (payload msg) of
        Inl e \<Rightarrow> (Inl e, s)
      | Inr payload' \<Rightarrow>
          if topic msg = OFFER_TOPIC
          then (Inr (), s\<lparr>loop_calls := loop_calls s @ [HandleOfferTask payload']\<rparr>)
          else if topic msg = ICE_TOPIC then (Inr (), s)
          else (Inr (), s))"

text \<open>
  \<open>WebRTCServer.handle_offer\<close>. The coroutine is taken to run to its end before the next
  one starts; an exception of an engine call ends it and keeps what was done before.
\<close>

definition handle_offer ::
  "'pc engine \<Rightarrow> str \<Rightarrow> 'pc WebRTCServer \<Rightarrow> (error + unit) \<times> 'pc WebRTCServer" where
  "handle_offer eng sdp' s0 =
     (let offer = \<lparr>sdp = sdp', type = ''offer''\<rparr>;
          s1 = s0\<lparr>pc_calls := pc_calls s0 @ [SetRemoteDescription offer]\<rparr>
      in case setRemoteDescription eng offer (pc s1) of
           Inl e \<Rightarrow> (Inl e, s1)
         | Inr pc1 \<Rightarrow>
             (let s2 = s1\<lparr>pc := pc1, pc_calls := pc_calls s1 @ [CreateAnswer]\<rparr>
              in case createAnswer eng (pc s2) of
                   Inl e \<Rightarrow> (Inl e, s2)
                 | Inr (answer, pc2) \<Rightarrow>
                     (let s3 = s2\<lparr>pc := pc2,
                                  pc_calls := pc_calls s2 @ [SetLocalDescription answer]\<rparr>
                      in case setLocalDescription eng answer (pc s3) of
                           Inl e \<Rightarrow> (Inl e, s3)
                         | Inr pc3 \<Rightarrow>
                             (let s4 = s3\<lparr>pc := pc3\<rparr>
                              in case localDescription eng (pc s4) of
                                   None \<Rightarrow> (Inl AttributeError, s4)
                                 | Some d \<Rightarrow>
                                     (Inr (),
                                      s4\<lparr>published :=
                                           published s4 @ [(ANSWER_TOPIC, sdp d)]\<rparr>)))))"

text \<open>
  The event loop running the callbacks scheduled on it, in order. \<open>handle_offer_task\<close>
  wraps \<open>handle_offer\<close> in a future, whose exception nobody retrieves. The Responder
  schedules no other callback.
\<close>

fun server_run_callback ::
  "'pc engine \<Rightarrow> loop_callback \<Rightarrow> 'pc WebRTCServer \<Rightarrow> 'pc WebRTCServer" where
  "server_run_callback eng (HandleOfferTask sdp') s = snd (handle_offer eng sdp' s)"
| "server_run_callback eng cb s = s"

fun server_run_callbacks ::
  "'pc engine \<Rightarrow> loop_callback list \<Rightarrow> 'pc WebRTCServer \<Rightarrow> 'pc WebRTCServer" where
  "server_run_callbacks eng [] s = s"
| "server_run_callbacks eng (cb # cbs) s =
     server_run_callbacks eng cbs (server_run_callback eng cb s)"

definition server_run_loop :: "'pc engine \<Rightarrow> 'pc WebRTCServer \<Rightarrow> 'pc WebRTCServer" where
  "server_run_loop eng s = server_run_callbacks eng (loop_calls s) (s\<lparr>loop_calls := []\<rparr>)"

subsection \<open>Caller (\<open>c_end.py\<close>)\<close>

text \<open>
  \<open>WebRTCClient.on_connect\<close>: \<open>self.loop.call_soon_threadsafe(self.create_offer_task)\<close>,
  and nothing else.
\<close>

definition client_on_connect :: "'pc WebRTCClient \<Rightarrow> 'pc WebRTCClient" where
  "client_on_connect s = s\<lparr>loop_calls := loop_calls s @ [CreateOfferTask]\<rparr>"

text \<open>\<open>WebRTCClient.on_message\<close>\<close>

definition client_on_message ::
  "mqtt_message \<Rightarrow> 'pc WebRTCClient \<Rightarrow> (error + unit) \<times> 'pc WebRTCClient" where
  "client_on_message msg s =
     (case decode (payload msg) of
        Inl e \<Rightarrow> (Inl e, s)
      | Inr payload' \<Rightarrow>
          if topic msg = ANSWER_TOPIC
          then (Inr (), s\<lparr>loop_calls := loop_calls s @ [HandleAnswerTask payload']\<rparr>)
          else if topic msg = ICE_TOPIC then (Inr (), s)
          else (Inr (), s))"

text \<open>\<open>WebRTCClient.create_offer\<close>\<close>

definition create_offer ::
  "'pc engine \<Rightarrow> 'pc WebRTCClient \<Rightarrow> (error + unit) \<times> 'pc WebRTCClient" where
  "create_offer eng s0 =
     (let s1 = s0\<lparr>pc_calls := pc_calls s0 @ [CreateOffer]\<rparr>
      in case createOffer eng (pc s1) of
           Inl e \<Rightarrow> (Inl e, s1)
         | Inr (offer, pc1) \<Rightarrow>
             (let s2 = s1\<lparr>pc := pc1,
                          pc_calls := pc_calls s1 @ [SetLocalDescription offer]\<rparr>
              in case setLocalDescription eng offer (pc s2) of
                   Inl e \<Rightarrow> (Inl e, s2)
                 | Inr pc2 \<Rightarrow>
                     (let s3 = s2\<lparr>pc := pc2\<rparr>
                      in case localDescription eng (pc s3) of
                           None \<Rightarrow> (Inl AttributeError, s3)
                         | Some d \<Rightarrow>
                             (Inr (),
                              s3\<lparr>published :=
                                   published s3 @ [(OFFER_TOPIC, sdp d)]\<rparr>))))"

text \<open>\<open>WebRTCClient.handle_answer\<close>\<close>

definition handle_answer ::
  "'pc engine \<Rightarrow> str \<Rightarrow> 'pc WebRTCClient \<Rightarrow> (error + unit) \<times> 'pc WebRTCClient" where
  "handle_answer eng sdp' s0 =
     (let answer = \<lparr>sdp = sdp', type = ''answer''\<rparr>;
          s1 = s0\<lparr>pc_calls := pc_calls s0 @ [SetRemoteDescription answer]\<rparr>
      in case setRemoteDescription eng answer (pc s1) of
           Inl e \<Rightarrow> (Inl e, s1)
         | Inr pc1 \<Rightarrow> (Inr (), s1\<lparr>pc := pc1\<rparr>))"

text \<open>\<open>WebRTCClient.set_ptt\<close>\<close>

definition client_set_ptt :: "bool \<Rightarrow> 'pc WebRTCClient \<Rightarrow> 'pc WebRTCClient" where
  "client_set_ptt active s = s\<lparr>audio_track := set_ptt active (audio_track s)\<rparr>"

fun client_run_callback ::
  "'pc engine \<Rightarrow> loop_callback \<Rightarrow> 'pc WebRTCClient \<Rightarrow> 'pc WebRTCClient" where
  "client_run_callback eng CreateOfferTask s = snd (create_offer eng s)"
| "client_run_callback eng (HandleAnswerTask sdp') s = snd (handle_answer eng sdp' s)"
| "client_run_callback eng cb s = s"

fun client_run_callbacks ::
  "'pc engine \<Rightarrow> loop_callback list \<Rightarrow> 'pc WebRTCClient \<Rightarrow> 'pc WebRTCClient" where
  "client_run_callbacks eng [] s = s"
| "client_run_callbacks eng (cb # cbs) s =
     client_run_callbacks eng cbs (client_run_callback eng cb s)"

definition client_run_loop :: "'pc engine \<Rightarrow> 'pc WebRTCClient \<Rightarrow> 'pc WebRTCClient" where
  "client_run_loop eng s = client_run_callbacks eng (loop_calls s) (s\<lparr>loop_calls := []\<rparr>)"

section \<open>The message bus\<close>

text \<open>
  The broker hands a published message to a client's \<open>on_message\<close> only when the client
  holds a subscription for the message's topic (the topic filters used here have no
  wildcards, so a filter matches exactly its own topic).
\<close>

definition deliver ::
  "(mqtt_message \<Rightarrow> ('pc, 'a) endpoint_scheme \<Rightarrow> (error + unit) \<times> ('pc, 'a) endpoint_scheme) \<Rightarrow>
   mqtt_message \<Rightarrow> ('pc, 'a) endpoint_scheme \<Rightarrow> (error + unit) \<times> ('pc, 'a) endpoint_scheme" where
  "deliver on_message msg s =
     (if topic msg \<in> set (map fst (subscriptions s)) then on_message msg s else (Inr (), s))"

section \<open>A reference transport engine\<close>

text \<open>
  The signaling-state rules of a peer connection, for a single media section: a remote
  offer is accepted in \<open>stable\<close> and \<open>have-remote-offer\<close>, an answer can be created and
  applied locally in \<open>have-remote-offer\<close>, a local offer is accepted in \<open>stable\<close> and
  \<open>have-local-offer\<close>, a remote answer in \<open>have-local-offer\<close>. Applying an answer brings
  the connection back to \<open>stable\<close>. It serves as the concrete engine of the examples.
\<close>

datatype signaling_state = Stable | HaveLocalOffer | HaveRemoteOffer

record rtc =
  signalingState :: signaling_state
  local_desc :: "session_description option"
  remote_desc :: "session_description option"

definition rtc_new :: rtc where
  "rtc_new = \<lparr>signalingState = Stable, local_desc = None, remote_desc = None\<rparr>"

definition rtc_createOffer :: "rtc \<Rightarrow> error + session_description \<times> rtc" where
  "rtc_createOffer c = Inr (\<lparr>sdp = ascii ''v=0 offer'', type = ''offer''\<rparr>, c)"

definition rtc_createAnswer :: "rtc \<Rightarrow> error + session_description \<times> rtc" where
  "rtc_createAnswer c =
     (if signalingState c = HaveRemoteOffer
      then Inr (\<lparr>sdp = ascii ''v=0 answer'', type = ''answer''\<rparr>, c)
      else Inl InvalidStateError)"

definition rtc_setLocalDescription :: "session_description \<Rightarrow> rtc \<Rightarrow> error + rtc" where
  "rtc_setLocalDescription d c =
     (if type d = ''offer'' then
        (if signalingState c = Stable \<or> signalingState c = HaveLocalOffer
         then Inr (c\<lparr>signalingState := HaveLocalOffer, local_desc := Some d\<rparr>)
         else Inl InvalidStateError)
      else if type d = ''answer'' then
        (if signalingState c = HaveRemoteOffer
         then Inr (c\<lparr>signalingState := Stable, local_desc := Some d\<rparr>)
         else Inl InvalidStateError)
      else Inl ValueError)"

definition rtc_setRemoteDescription :: "session_description \<Rightarrow> rtc \<Rightarrow> error + rtc" where
  "rtc_setRemoteDescription d c =
     (if type d = ''offer'' then
        (if signalingState c = Stable \<or> signalingState c = HaveRemoteOffer
         then Inr (c\<lparr>signalingState := HaveRemoteOffer, remote_desc := Some d\<rparr>)
         else Inl InvalidStateError)
      else if type d = ''answer'' then
        (if signalingState c = HaveLocalOffer
         then Inr (c\<lparr>signalingState := Stable, remote_desc := Some d\<rparr>)
         else Inl InvalidStateError)
      else Inl ValueError)"

definition rtc_engine :: "rtc engine" where
  "rtc_engine =
     \<lparr>createOffer = rtc_createOffer,
      createAnswer = rtc_createAnswer,
      setLocalDescription = rtc_setLocalDescription,
      setRemoteDescription = rtc_setRemoteDescription,
      localDescription = local_desc\<rparr>"


text \<open>
  The arrival of one message at the Responder: the broker delivers it, then the event
  loop runs what the handler scheduled.
\<close>

definition server_receive ::
  "'pc engine \<Rightarrow> mqtt_message \<Rightarrow> 'pc WebRTCServer \<Rightarrow> 'pc WebRTCServer" where
  "server_receive eng msg s = server_run_loop eng (snd (deliver server_on_message msg s))"

section \<open>Example inputs\<close>

text \<open>Capture devices: one that flags an overflow on every read, and one that delivers
  empty blocks.\<close>

definition overflowing_device :: "nat \<Rightarrow> byte list \<times> bool" where
  "overflowing_device = (\<lambda>i. (replicate 1920 5, True))"

definition idle_device :: "nat \<Rightarrow> byte list \<times> bool" where
  "idle_device = (\<lambda>i. ([], False))"

text \<open>An audio track whose stream has already ended, and one that delivers two frames.\<close>

definition ended_track :: media_track where
  "ended_track = \<lparr>kind = ''audio'', pulls = (\<lambda>i. Inl MediaStreamError)\<rparr>"

definition two_frame_track :: media_track where
  "two_frame_track =
     \<lparr>kind = ''audio'',
      pulls = (\<lambda>i. if i < 2
                    then Inr \<lparr>format = ''s16'', layout = ''mono'', samples = 1,
                              planes = [[of_nat i, 0]], pts = None, time_base = None\<rparr>
                    else Inl MediaStreamError)\<rparr>"

definition good_output :: "nat \<Rightarrow> bool" where
  "good_output = (\<lambda>i. False)"

text \<open>An offer message with the payload \<open>v=0\<close>, and the Responder after it has connected
  and after it has handled that offer once.\<close>

definition example_offer :: mqtt_message where
  "example_offer = \<lparr>topic = OFFER_TOPIC, payload = [0x76, 0x3D, 0x30]\<rparr>"

definition connected_responder :: "rtc WebRTCServer" where
  "connected_responder = server_on_connect (WebRTCServer rtc_new)"

definition responder_after_offer :: "rtc WebRTCServer" where
  "responder_after_offer = server_receive rtc_engine example_offer connected_responder"

section \<open>Sample buffers: the round trip through the array\<close>

lemma lo_byte_le16: "lo_byte (le16 a b) = a"
  unfolding lo_byte_def le16_def
  by (rule bit_word_eqI) (auto simp add: bit_simps)

lemma hi_byte_le16: "hi_byte (le16 a b) = b"
  unfolding hi_byte_def le16_def
  by (rule bit_word_eqI) (auto simp add: bit_simps dest: bit_imp_le_length)

lemma tobytes_frombuffer_int16:
  "frombuffer_int16 d = Inr ws \<Longrightarrow> tobytes ws = d"
  by (induction d arbitrary: ws rule: frombuffer_int16.induct)
     (auto simp add: lo_byte_le16 hi_byte_le16 split: sum.splits)

lemma frombuffer_int16_even:
  "even (length d) \<Longrightarrow> \<exists>ws. frombuffer_int16 d = Inr ws"
  by (induction d rule: frombuffer_int16.induct) (auto split: sum.splits)

section \<open>The frame pull\<close>

text \<open>What the locked block does once it is reached.\<close>

lemma recv_locked_gate_closed:
  "\<not> is_active t \<Longrightarrow>
   recv_locked mem ts tb t =
     (Inr \<lparr>format = ''s16'', layout = ''mono'', samples = CHUNK,
           planes = [replicate (CHUNK * 2) 0],
           pts = Some ts, time_base = Some tb\<rparr>,
      t)"
  by (simp add: recv_locked_def Let_def AudioFrame_def bytes_def plane_update_def)

lemma recv_locked_gate_open:
  assumes "is_active t" and "stream t = Some st"
    and "stream_read CHUNK False st = (Inr data, st')"
    and "length data = CHUNK * 2"
  shows "recv_locked mem ts tb t =
     (Inr \<lparr>format = ''s16'', layout = ''mono'', samples = CHUNK,
           planes = [data],
           pts = Some ts, time_base = Some tb\<rparr>,
      t\<lparr>stream := Some st'\<rparr>)"
proof -
  from assms(4) have "even (length data)" by simp
  then obtain ws where ws: "frombuffer_int16 data = Inr ws"
    using frombuffer_int16_even by blast
  then have tb: "tobytes ws = data" by (rule tobytes_frombuffer_int16)
  show ?thesis
    using assms ws tb
    by (simp add: recv_locked_def Let_def AudioFrame_def plane_update_def)
qed

text \<open>The pull itself never gets that far.\<close>

lemma recv_raises: "recv mem t = (Inl AttributeError, t)"
  by (simp add: recv_def next_timestamp_def)

text \<open>
  Claim C5, at the failing input: whatever sequence of \<open>set_ptt\<close> calls came before, the
  pull that follows \<open>set_ptt(False)\<close> and the pull that follows \<open>set_ptt(True)\<close> both
  raise \<open>AttributeError\<close> and leave the track as it was. No frame is produced, neither
  the silence block nor the device's samples.
\<close>

theorem recv_after_set_ptt_raises:
  "recv mem (set_ptt False (fold set_ptt acts t)) =
     (Inl AttributeError, set_ptt False (fold set_ptt acts t))
   \<and> recv mem (set_ptt True (fold set_ptt acts t)) =
     (Inl AttributeError, set_ptt True (fold set_ptt acts t))"
  by (simp add: recv_raises)

text \<open>
  Claim C8, at the failing input: with the gate open and a capture device that would flag
  an overflow on its next read, the pull raises \<open>AttributeError\<close>. The read is never
  issued: the stream's call log stays empty.
\<close>

theorem recv_gate_open_overflow_raises:
  "is_active (set_ptt True (AudioInputTrack overflowing_device))
   \<and> fst (recv mem (set_ptt True (AudioInputTrack overflowing_device))) = Inl AttributeError
   \<and> stream (snd (recv mem (set_ptt True (AudioInputTrack overflowing_device)))) =
       Some \<lparr>calls = [], running = True, closed = False, feed = overflowing_device,
             nread = 0\<rparr>"
  by (simp add: recv_raises set_ptt_def AudioInputTrack_def)

text \<open>
  Claim C10, at the failing input: a pull with the gate closed raises \<open>AttributeError\<close>
  before the gate is looked at. The capture stream and the PyAudio instance are
  untouched, but no silence frame is built.
\<close>

theorem recv_gate_closed_raises:
  "\<not> is_active (set_ptt False t)
   \<and> fst (recv mem (set_ptt False t)) = Inl AttributeError
   \<and> stream (snd (recv mem (set_ptt False t))) = stream t
   \<and> p (snd (recv mem (set_ptt False t))) = p t"
  by (simp add: recv_raises set_ptt_def)

section \<open>Releasing the capture device\<close>

text \<open>
  Claim C4, at the failing input \<open>stop(); stop()\<close> on a freshly opened track. The first
  call stops and closes the stream and terminates the PyAudio instance. The attribute
  \<open>stream\<close> still holds the closed handle, so the second call enters the guarded branch
  again: \<open>stop_stream\<close> returns at once, but \<open>close\<close> is issued on the closed handle a
  second time and \<open>terminate\<close> is called a second time. The second call returns
  normally.
\<close>

theorem stop_twice:
  "stop (AudioInputTrack dev) =
     (Inr (),
      \<lparr>p = \<lparr>terminate_calls = 1\<rparr>,
       stream = Some \<lparr>calls = [PaStopStream, PaClose], running = False, closed = True,
                      feed = dev, nread = 0\<rparr>,
       is_active = False\<rparr>)
   \<and> stop (snd (stop (AudioInputTrack dev))) =
     (Inr (),
      \<lparr>p = \<lparr>terminate_calls = 2\<rparr>,
       stream = Some \<lparr>calls = [PaStopStream, PaClose, PaClose], running = False,
                      closed = True, feed = dev, nread = 0\<rparr>,
       is_active = False\<rparr>)"
  by (simp add: stop_def AudioInputTrack_def stop_stream_def close_def terminate_def)

section \<open>Inbound tracks\<close>

text \<open>
  Claim C3, as the code has it: \<open>on_track\<close> keeps no record of the tracks already bound.
  Every notification of an audio track creates one more \<open>play_audio\<close> task, and
  notifications of other kinds create none.
\<close>

theorem on_track_one_task_per_audio_notification:
  "created_tasks (fold on_track ns s) =
     created_tasks s @ filter (\<lambda>track. kind track = ''audio'') ns"
  by (induction ns arbitrary: s) (simp_all add: on_track_def)

theorem on_track_twice_counterexample:
  "kind ended_track = ''audio''
   \<and> created_tasks (on_track ended_track (WebRTCServer rtc_new)) = [ended_track]
   \<and> created_tasks (on_track ended_track (on_track ended_track (WebRTCServer rtc_new))) =
       [ended_track, ended_track]"
  by (simp add: on_track_def WebRTCServer_def ended_track_def)

section \<open>Signaling: subscriptions and inbound candidates\<close>

text \<open>
  Claim C1, on the code: the Responder's \<open>on_connect\<close> subscribes to the Offer and
  IceCandidate topics, while the Caller's \<open>on_connect\<close> subscribes to nothing. A freshly
  connected Caller therefore gets no message at all from the broker: delivering any
  message, an answer included, never reaches its handler and schedules no
  \<open>handle_answer\<close>.
\<close>

theorem caller_never_subscribes:
  "subscriptions (server_on_connect (WebRTCServer pc0)) = [(OFFER_TOPIC, 0), (ICE_TOPIC, 0)]
   \<and> subscriptions (client_on_connect (WebRTCClient pc0 dev)) = []
   \<and> deliver client_on_message msg (client_on_connect (WebRTCClient pc0 dev)) =
       (Inr (), client_on_connect (WebRTCClient pc0 dev))
   \<and> loop_calls (snd (deliver client_on_message \<lparr>topic = ANSWER_TOPIC, payload = pl\<rparr>
        (client_on_connect (WebRTCClient pc0 dev)))) = [CreateOfferTask]"
  by (simp add: server_on_connect_def client_on_connect_def WebRTCServer_def
        WebRTCClient_def deliver_def)

lemma ICE_TOPIC_distinct: "ICE_TOPIC \<noteq> OFFER_TOPIC" "ICE_TOPIC \<noteq> ANSWER_TOPIC"
  by (simp_all add: ICE_TOPIC_def OFFER_TOPIC_def ANSWER_TOPIC_def)

text \<open>
  Claim C9, as the code has it: an IceCandidate message whose payload decodes as UTF-8
  text (the empty payload and any unrecognised text included) is dropped by both
  handlers: they return normally and leave the endpoint as it was.
\<close>

theorem ice_message_dropped:
  "topic msg = ICE_TOPIC \<Longrightarrow> decode (payload msg) = Inr content \<Longrightarrow>
   server_on_message msg s = (Inr (), s) \<and> client_on_message msg c = (Inr (), c)"
  by (simp add: server_on_message_def client_on_message_def ICE_TOPIC_distinct)

theorem ice_message_dropped_witness:
  "server_on_message \<lparr>topic = ICE_TOPIC, payload = []\<rparr> connected_responder =
     (Inr (), connected_responder)
   \<and> client_on_message \<lparr>topic = ICE_TOPIC, payload = []\<rparr> (WebRTCClient rtc_new idle_device) =
     (Inr (), WebRTCClient rtc_new idle_device)"
  using ice_message_dropped [of "\<lparr>topic = ICE_TOPIC, payload = []\<rparr>" "[]"
      connected_responder "WebRTCClient rtc_new idle_device"]
  by simp

theorem ice_message_invalid_utf8_counterexample:
  "server_on_message \<lparr>topic = ICE_TOPIC, payload = [0xFF]\<rparr> connected_responder =
     (Inl UnicodeDecodeError, connected_responder)
   \<and> client_on_message \<lparr>topic = ICE_TOPIC, payload = [0xFF]\<rparr>
       (WebRTCClient rtc_new idle_device) =
     (Inl UnicodeDecodeError, WebRTCClient rtc_new idle_device)"
  by (simp add: server_on_message_def client_on_message_def)


section \<open>The Responder's offer handler\<close>

lemma handle_offer_success:
  assumes "setRemoteDescription eng \<lparr>sdp = content, type = ''offer''\<rparr> (pc s) = Inr pc1"
    and "createAnswer eng pc1 = Inr (answer, pc2)"
    and "setLocalDescription eng answer pc2 = Inr pc3"
    and "localDescription eng pc3 = Some d"
  shows "handle_offer eng content s =
     (Inr (),
      s\<lparr>pc := pc3,
        pc_calls := pc_calls s @ [SetRemoteDescription \<lparr>sdp = content, type = ''offer''\<rparr>,
                                  CreateAnswer, SetLocalDescription answer],
        published := published s @ [(ANSWER_TOPIC, sdp d)]\<rparr>)"
  using assms by (simp add: handle_offer_def Let_def)

lemma handle_offer_returns:
  assumes "handle_offer eng content s = (Inr (), s')"
  shows "length (published s') = length (published s) + 1"
  using assms
  by (auto simp add: handle_offer_def Let_def split: sum.splits option.splits prod.splits)

lemma server_receive_offer:
  assumes "topic msg = OFFER_TOPIC" and "decode (payload msg) = Inr content"
    and "OFFER_TOPIC \<in> set (map fst (subscriptions s))" and "loop_calls s = []"
    and "setRemoteDescription eng \<lparr>sdp = content, type = ''offer''\<rparr> (pc s) = Inr pc1"
    and "createAnswer eng pc1 = Inr (answer, pc2)"
    and "setLocalDescription eng answer pc2 = Inr pc3"
    and "localDescription eng pc3 = Some d"
  shows "server_receive eng msg s =
     s\<lparr>pc := pc3,
       pc_calls := pc_calls s @ [SetRemoteDescription \<lparr>sdp = content, type = ''offer''\<rparr>,
                                 CreateAnswer, SetLocalDescription answer],
       published := published s @ [(ANSWER_TOPIC, sdp d)]\<rparr>"
proof -
  have d: "deliver server_on_message msg s =
      (Inr (), s\<lparr>loop_calls := [HandleOfferTask content]\<rparr>)"
    using assms(1-4) by (simp add: deliver_def server_on_message_def)
  have h: "handle_offer eng content (s\<lparr>loop_calls := []\<rparr>) =
     (Inr (),
      s\<lparr>loop_calls := [], pc := pc3,
        pc_calls := pc_calls s @ [SetRemoteDescription \<lparr>sdp = content, type = ''offer''\<rparr>,
                                  CreateAnswer, SetLocalDescription answer],
        published := published s @ [(ANSWER_TOPIC, sdp d)]\<rparr>)"
    using handle_offer_success [of eng content "s\<lparr>loop_calls := []\<rparr>" pc1 answer pc2 pc3 d]
      assms(5-8) by simp
  show ?thesis
    using assms(4) by (simp add: server_receive_def server_run_loop_def d h)
qed

lemma decode_v0: "decode [0x76, 0x3D, 0x30] = Inr (ascii ''v=0'')"
  by (simp add: prepend_def ascii_def)

lemma connected_responder_eq:
  "connected_responder =
     \<lparr>pc = rtc_new, pc_calls = [], subscriptions = [(OFFER_TOPIC, 0), (ICE_TOPIC, 0)],
      published = [], loop_calls = [], created_tasks = [], player_task = None\<rparr>"
  by (simp add: connected_responder_def server_on_connect_def WebRTCServer_def)

lemma first_offer_engine_calls:
  "setRemoteDescription rtc_engine \<lparr>sdp = ascii ''v=0'', type = ''offer''\<rparr>
        (pc connected_responder) =
      Inr \<lparr>signalingState = HaveRemoteOffer, local_desc = None,
           remote_desc = Some \<lparr>sdp = ascii ''v=0'', type = ''offer''\<rparr>\<rparr>"
  "createAnswer rtc_engine \<lparr>signalingState = HaveRemoteOffer, local_desc = None,
           remote_desc = Some \<lparr>sdp = ascii ''v=0'', type = ''offer''\<rparr>\<rparr> =
      Inr (\<lparr>sdp = ascii ''v=0 answer'', type = ''answer''\<rparr>,
           \<lparr>signalingState = HaveRemoteOffer, local_desc = None,
            remote_desc = Some \<lparr>sdp = ascii ''v=0'', type = ''offer''\<rparr>\<rparr>)"
  "setLocalDescription rtc_engine \<lparr>sdp = ascii ''v=0 answer'', type = ''answer''\<rparr>
        \<lparr>signalingState = HaveRemoteOffer, local_desc = None,
            remote_desc = Some \<lparr>sdp = ascii ''v=0'', type = ''offer''\<rparr>\<rparr> =
      Inr \<lparr>signalingState = Stable,
            local_desc = Some \<lparr>sdp = ascii ''v=0 answer'', type = ''answer''\<rparr>,
            remote_desc = Some \<lparr>sdp = ascii ''v=0'', type = ''offer''\<rparr>\<rparr>"
  "localDescription rtc_engine \<lparr>signalingState = Stable,
            local_desc = Some \<lparr>sdp = ascii ''v=0 answer'', type = ''answer''\<rparr>,
            remote_desc = Some \<lparr>sdp = ascii ''v=0'', type = ''offer''\<rparr>\<rparr> =
       Some \<lparr>sdp = ascii ''v=0 answer'', type = ''answer''\<rparr>"
  by (simp_all add: rtc_engine_def rtc_setRemoteDescription_def rtc_createAnswer_def
        rtc_setLocalDescription_def connected_responder_eq rtc_new_def)

lemma responder_after_offer_eq:
  "responder_after_offer =
     \<lparr>pc = \<lparr>signalingState = Stable,
            local_desc = Some \<lparr>sdp = ascii ''v=0 answer'', type = ''answer''\<rparr>,
            remote_desc = Some \<lparr>sdp = ascii ''v=0'', type = ''offer''\<rparr>\<rparr>,
      pc_calls = [SetRemoteDescription \<lparr>sdp = ascii ''v=0'', type = ''offer''\<rparr>, CreateAnswer,
                  SetLocalDescription \<lparr>sdp = ascii ''v=0 answer'', type = ''answer''\<rparr>],
      subscriptions = [(OFFER_TOPIC, 0), (ICE_TOPIC, 0)],
      published = [(ANSWER_TOPIC, ascii ''v=0 answer'')],
      loop_calls = [], created_tasks = [], player_task = None\<rparr>"
proof -
  have t: "topic example_offer = OFFER_TOPIC" by (simp add: example_offer_def)
  have p: "decode (payload example_offer) = Inr (ascii ''v=0'')"
    unfolding example_offer_def using decode_v0 by simp
  have s: "OFFER_TOPIC \<in> set (map fst (subscriptions connected_responder))"
    by (simp add: connected_responder_eq)
  have l: "loop_calls connected_responder = []" by (simp add: connected_responder_eq)
  show ?thesis
    unfolding responder_after_offer_def
    by (simp add: server_receive_offer [OF t p s l first_offer_engine_calls]) (simp add: connected_responder_eq)
qed


text \<open>
  Claim C6. A Responder that is subscribed and idle receives one offer message. When the
  engine completes the three negotiation calls, the handler has issued
  \<open>setRemoteDescription(offer)\<close>, \<open>createAnswer()\<close>, \<open>setLocalDescription(answer)\<close> in
  that order and has published exactly one message, on the Answer topic, carrying the
  local description's SDP. Nothing else of the endpoint changes.
\<close>

theorem offer_answered_in_order:
  assumes "topic msg = OFFER_TOPIC" and "decode (payload msg) = Inr content"
    and "OFFER_TOPIC \<in> set (map fst (subscriptions s))" and "loop_calls s = []"
    and "setRemoteDescription eng \<lparr>sdp = content, type = ''offer''\<rparr> (pc s) = Inr pc1"
    and "createAnswer eng pc1 = Inr (answer, pc2)"
    and "setLocalDescription eng answer pc2 = Inr pc3"
    and "localDescription eng pc3 = Some d"
  shows "server_receive eng msg s =
     s\<lparr>pc := pc3,
       pc_calls := pc_calls s @ [SetRemoteDescription \<lparr>sdp = content, type = ''offer''\<rparr>,
                                 CreateAnswer, SetLocalDescription answer],
       published := published s @ [(ANSWER_TOPIC, sdp d)]\<rparr>"
  using assms by (rule server_receive_offer)

theorem offer_answered_in_order_witness:
  "pc_calls (server_receive rtc_engine example_offer connected_responder) =
     [SetRemoteDescription \<lparr>sdp = ascii ''v=0'', type = ''offer''\<rparr>, CreateAnswer,
      SetLocalDescription \<lparr>sdp = ascii ''v=0 answer'', type = ''answer''\<rparr>]
   \<and> published (server_receive rtc_engine example_offer connected_responder) =
     [(ANSWER_TOPIC, ascii ''v=0 answer'')]"
proof -
  have t: "topic example_offer = OFFER_TOPIC" by (simp add: example_offer_def)
  have p: "decode (payload example_offer) = Inr (ascii ''v=0'')"
    unfolding example_offer_def using decode_v0 by simp
  have s: "OFFER_TOPIC \<in> set (map fst (subscriptions connected_responder))"
    by (simp add: connected_responder_eq)
  have l: "loop_calls connected_responder = []" by (simp add: connected_responder_eq)
  show ?thesis
    by (simp add: offer_answered_in_order [OF t p s l first_offer_engine_calls]) (simp add: connected_responder_eq)
qed

text \<open>
  Claim C2, as the code has it: \<open>handle_offer\<close> keeps no record of earlier offers and
  checks nothing before it acts. After one offer has been handled, a second offer is
  handled in the same way: when the engine accepts the calls, the connection is renegotiated
  and a second answer is published.
\<close>

theorem second_offer_answered_again:
  assumes "handle_offer eng content1 s0 = (Inr (), s1)"
    and "setRemoteDescription eng \<lparr>sdp = content2, type = ''offer''\<rparr> (pc s1) = Inr pc1"
    and "createAnswer eng pc1 = Inr (answer, pc2)"
    and "setLocalDescription eng answer pc2 = Inr pc3"
    and "localDescription eng pc3 = Some d"
  shows "handle_offer eng content2 s1 =
     (Inr (),
      s1\<lparr>pc := pc3,
         pc_calls := pc_calls s1 @ [SetRemoteDescription \<lparr>sdp = content2, type = ''offer''\<rparr>,
                                    CreateAnswer, SetLocalDescription answer],
         published := published s1 @ [(ANSWER_TOPIC, sdp d)]\<rparr>)
   \<and> length (published (snd (handle_offer eng content2 s1))) = length (published s0) + 2"
proof -
  have h: "handle_offer eng content2 s1 =
     (Inr (),
      s1\<lparr>pc := pc3,
         pc_calls := pc_calls s1 @ [SetRemoteDescription \<lparr>sdp = content2, type = ''offer''\<rparr>,
                                    CreateAnswer, SetLocalDescription answer],
         published := published s1 @ [(ANSWER_TOPIC, sdp d)]\<rparr>)"
    using assms(2-5) by (rule handle_offer_success)
  from handle_offer_returns [OF assms(1)] h show ?thesis by simp
qed

lemma handle_offer_first_example:
  "handle_offer rtc_engine (ascii ''v=0'') connected_responder =
     (Inr (), responder_after_offer)"
  by (simp add: handle_offer_success [OF first_offer_engine_calls] responder_after_offer_eq)
     (simp add: connected_responder_eq)

lemma second_offer_engine_calls:
  "setRemoteDescription rtc_engine \<lparr>sdp = ascii ''v=0'', type = ''offer''\<rparr>
        (pc responder_after_offer) =
      Inr \<lparr>signalingState = HaveRemoteOffer,
           local_desc = Some \<lparr>sdp = ascii ''v=0 answer'', type = ''answer''\<rparr>,
           remote_desc = Some \<lparr>sdp = ascii ''v=0'', type = ''offer''\<rparr>\<rparr>"
  "createAnswer rtc_engine \<lparr>signalingState = HaveRemoteOffer,
           local_desc = Some \<lparr>sdp = ascii ''v=0 answer'', type = ''answer''\<rparr>,
           remote_desc = Some \<lparr>sdp = ascii ''v=0'', type = ''offer''\<rparr>\<rparr> =
      Inr (\<lparr>sdp = ascii ''v=0 answer'', type = ''answer''\<rparr>,
           \<lparr>signalingState = HaveRemoteOffer,
            local_desc = Some \<lparr>sdp = ascii ''v=0 answer'', type = ''answer''\<rparr>,
            remote_desc = Some \<lparr>sdp = ascii ''v=0'', type = ''offer''\<rparr>\<rparr>)"
  "setLocalDescription rtc_engine \<lparr>sdp = ascii ''v=0 answer'', type = ''answer''\<rparr>
        \<lparr>signalingState = HaveRemoteOffer,
         local_desc = Some \<lparr>sdp = ascii ''v=0 answer'', type = ''answer''\<rparr>,
         remote_desc = Some \<lparr>sdp = ascii ''v=0'', type = ''offer''\<rparr>\<rparr> =
      Inr \<lparr>signalingState = Stable,
            local_desc = Some \<lparr>sdp = ascii ''v=0 answer'', type = ''answer''\<rparr>,
            remote_desc = Some \<lparr>sdp = ascii ''v=0'', type = ''offer''\<rparr>\<rparr>"
  "localDescription rtc_engine \<lparr>signalingState = Stable,
            local_desc = Some \<lparr>sdp = ascii ''v=0 answer'', type = ''answer''\<rparr>,
            remote_desc = Some \<lparr>sdp = ascii ''v=0'', type = ''offer''\<rparr>\<rparr> =
       Some \<lparr>sdp = ascii ''v=0 answer'', type = ''answer''\<rparr>"
  by (simp_all add: rtc_engine_def rtc_setRemoteDescription_def rtc_createAnswer_def
        rtc_setLocalDescription_def responder_after_offer_eq)

theorem second_offer_answered_again_witness:
  "published (snd (handle_offer rtc_engine (ascii ''v=0'') responder_after_offer)) =
     [(ANSWER_TOPIC, ascii ''v=0 answer''), (ANSWER_TOPIC, ascii ''v=0 answer'')]"
  using second_offer_answered_again [OF handle_offer_first_example second_offer_engine_calls]
  by (simp add: responder_after_offer_eq)

theorem second_offer_counterexample:
  "signalingState (pc responder_after_offer) = Stable
   \<and> local_desc (pc responder_after_offer) =
       Some \<lparr>sdp = ascii ''v=0 answer'', type = ''answer''\<rparr>
   \<and> remote_desc (pc responder_after_offer) = Some \<lparr>sdp = ascii ''v=0'', type = ''offer''\<rparr>
   \<and> published responder_after_offer = [(ANSWER_TOPIC, ascii ''v=0 answer'')]
   \<and> published (server_receive rtc_engine example_offer responder_after_offer) =
       [(ANSWER_TOPIC, ascii ''v=0 answer''), (ANSWER_TOPIC, ascii ''v=0 answer'')]
   \<and> server_receive rtc_engine example_offer responder_after_offer \<noteq> responder_after_offer"
proof -
  have t: "topic example_offer = OFFER_TOPIC" by (simp add: example_offer_def)
  have p: "decode (payload example_offer) = Inr (ascii ''v=0'')"
    unfolding example_offer_def using decode_v0 by simp
  have s: "OFFER_TOPIC \<in> set (map fst (subscriptions responder_after_offer))"
    by (simp add: responder_after_offer_eq)
  have l: "loop_calls responder_after_offer = []" by (simp add: responder_after_offer_eq)
  have r: "published (server_receive rtc_engine example_offer responder_after_offer) =
       [(ANSWER_TOPIC, ascii ''v=0 answer''), (ANSWER_TOPIC, ascii ''v=0 answer'')]"
    by (simp add: server_receive_offer [OF t p s l second_offer_engine_calls])
       (simp add: responder_after_offer_eq)
  have n: "server_receive rtc_engine example_offer responder_after_offer \<noteq> responder_after_offer"
  proof
    assume "server_receive rtc_engine example_offer responder_after_offer = responder_after_offer"
    then have "published (server_receive rtc_engine example_offer responder_after_offer) =
        published responder_after_offer" by simp
    with r show False by (simp add: responder_after_offer_eq)
  qed
  from r n show ?thesis by (simp add: responder_after_offer_eq)
qed


section \<open>The playback sink\<close>

lemma play_loop_run:
  assumes fr: "\<And>i. i < n \<Longrightarrow> pulls track i = Inr (fr i)"
    and pl: "\<And>i. i < n \<Longrightarrow> planes (fr i) = pl i # rest i"
    and ok: "\<And>i. i < n \<Longrightarrow> \<not> dev i"
    and fail: "pulls track n = Inl e"
  shows "k \<le> n \<Longrightarrow> \<not> closed st \<Longrightarrow> nwritten st = k \<Longrightarrow> wfail st = dev \<Longrightarrow>
     play_loop track k st =
       Some (st\<lparr>calls := calls st @ map (\<lambda>i. PaWrite (pl i)) [k..<n], nwritten := n\<rparr>)"
proof (induction "n - k" arbitrary: k st)
  case 0
  then have "k = n" by simp
  with fail 0 show ?case
    by (subst play_loop.simps) simp
next
  case (Suc m)
  then have kn: "k < n" by simp
  let ?st' = "st\<lparr>calls := calls st @ [PaWrite (pl k)], nwritten := k + 1\<rparr>"
  have w: "stream_write (pl k) st = (Inr (), ?st')"
    using Suc.prems ok [OF kn] by (simp add: stream_write_def)
  have step: "play_loop track k st = play_loop track (k + 1) ?st'"
    by (subst play_loop.simps) (simp add: fr [OF kn] pl [OF kn] w)
  have "m = n - (k + 1)" using Suc.hyps(2) by simp
  from Suc.hyps(1) [OF this, of ?st'] kn Suc.prems
  have "play_loop track (k + 1) ?st' =
      Some (?st'\<lparr>calls := calls ?st' @ map (\<lambda>i. PaWrite (pl i)) [k + 1..<n], nwritten := n\<rparr>)"
    by simp
  with step kn show ?case by (simp add: upt_conv_Cons)
qed

text \<open>
  Claim C7. Let the first failing pull of the bound track be the \<open>n\<close>-th one, the \<open>n\<close>
  frames before it carry at least one plane each, and the output device accept their
  writes. Then \<open>play_audio\<close> ends normally: it has written the first plane of each of the
  \<open>n\<close> frames in arrival order, then stopped and closed the stream and terminated the
  PyAudio instance, and the exception of the pull is not passed on.
\<close>

theorem play_audio_until_pull_fails:
  assumes "\<And>i. i < n \<Longrightarrow> pulls track i = Inr (fr i)"
    and "\<And>i. i < n \<Longrightarrow> planes (fr i) = pl i # rest i"
    and "\<And>i. i < n \<Longrightarrow> \<not> dev i"
    and "pulls track n = Inl e"
  shows "play_audio dev track =
     Some (Inr (), \<lparr>terminate_calls = 1\<rparr>,
           \<lparr>calls = map (\<lambda>i. PaWrite (pl i)) [0..<n] @ [PaStopStream, PaClose],
            running = False, closed = True, wfail = dev, nwritten = n\<rparr>)"
proof -
  have "play_loop track 0 (open_output dev) =
      Some ((open_output dev)\<lparr>calls := calls (open_output dev) @
              map (\<lambda>i. PaWrite (pl i)) [0..<n], nwritten := n\<rparr>)"
    using assms by (intro play_loop_run [where fr = fr and rest = rest and e = e])
      (simp_all add: open_output_def)
  then show ?thesis
    by (simp add: play_audio_def open_output_def stop_stream_def close_def terminate_def)
qed

theorem play_audio_until_pull_fails_witness:
  "play_audio good_output two_frame_track =
     Some (Inr (), \<lparr>terminate_calls = 1\<rparr>,
           \<lparr>calls = [PaWrite [0, 0], PaWrite [1, 0], PaStopStream, PaClose],
            running = False, closed = True, wfail = good_output, nwritten = 2\<rparr>)"
proof -
  have 1: "\<And>i. i < 2 \<Longrightarrow> pulls two_frame_track i =
      Inr \<lparr>format = ''s16'', layout = ''mono'', samples = 1,
           planes = [[of_nat i, 0]], pts = None, time_base = None\<rparr>"
    by (simp add: two_frame_track_def)
  have 2: "\<And>i. i < (2::nat) \<Longrightarrow>
      planes \<lparr>format = ''s16'', layout = ''mono'', samples = 1,
           planes = [[of_nat i, 0]], pts = None, time_base = None\<rparr> = [of_nat i, 0] # []"
    by simp
  have 3: "\<And>i. i < (2::nat) \<Longrightarrow> \<not> good_output i" by (simp add: good_output_def)
  have 4: "pulls two_frame_track 2 = Inl MediaStreamError" by (simp add: two_frame_track_def)
  have u: "[0..<2] = [0, Suc 0]" by (simp add: upt_conv_Cons)
  from play_audio_until_pull_fails [OF 1 2 3 4] show ?thesis
    by (simp add: u)
qed

end
